theory Spec2Isabelle
  imports Complex_Main "HOL-Library.Sublist"
begin

section \<open>Python values\<close>

text \<open>
  Values decoded from JSON (\<open>response.json()\<close>, \<open>json.loads\<close>): \<open>None\<close>, booleans,
  integers, floats (by their numeric value), strings, lists and dictionaries. The keys of
  a decoded dictionary are strings; it is an association list read with \<open>map_of\<close>.
\<close>

datatype pyval =
    PNone
  | PBool bool
  | PInt int
  | PFloat real
  | PStr string
  | PList "pyval list"
  | PDict "(string \<times> pyval) list"

text \<open>
  The exceptions the program can meet, all subclasses of \<open>Exception\<close>.
  \<open>RequestException\<close> stands for \<open>requests.RequestException\<close> and its subclasses
  (connection errors, \<open>HTTPError\<close>, and the \<open>JSONDecodeError\<close> that \<open>response.json()\<close>
  raises); \<open>UnicodeEncodeError\<close> is what \<open>print\<close> raises for a text that standard
  output cannot encode; \<open>ClientError\<close> stands for any other exception of the completion
  client.
\<close>

datatype exn =
    JSONDecodeError
  | AttributeError
  | KeyError
  | TypeError
  | IndexError
  | RequestException
  | UnicodeEncodeError
  | ClientError

text \<open>Truth value of a Python object, as \<open>if price:\<close> tests it.\<close>

fun truthy :: "pyval \<Rightarrow> bool" where
  "truthy PNone = False"
| "truthy (PBool b) = b"
| "truthy (PInt i) = (i \<noteq> 0)"
| "truthy (PFloat x) = (x \<noteq> 0)"
| "truthy (PStr s) = (s \<noteq> [])"
| "truthy (PList xs) = (xs \<noteq> [])"
| "truthy (PDict kv) = (kv \<noteq> [])"

text \<open>Lists and dictionaries are unhashable: using one as a dictionary key raises \<open>TypeError\<close>.\<close>

fun hashable :: "pyval \<Rightarrow> bool" where
  "hashable (PList xs) = False"
| "hashable (PDict kv) = False"
| "hashable v = True"

text \<open>
  \<open>obj.get(key, default)\<close>: only a dictionary has the method \<open>get\<close>; a key that is not a
  string equals no key of a decoded dictionary.
\<close>

fun py_get :: "pyval \<Rightarrow> pyval \<Rightarrow> pyval \<Rightarrow> exn + pyval" where
  "py_get (PDict kv) k d =
     (if \<not> hashable k then Inl TypeError
      else (case k of
              PStr n \<Rightarrow> (case map_of kv n of Some v \<Rightarrow> Inr v | None \<Rightarrow> Inr d)
            | _ \<Rightarrow> Inr d))"
| "py_get obj k d = Inl AttributeError"

text \<open>
  \<open>obj[key]\<close> with a string key: a dictionary without the key raises \<open>KeyError\<close>, and
  every other decoded value raises \<open>TypeError\<close> (not subscriptable, or indices must be
  integers).
\<close>

fun py_getitem :: "pyval \<Rightarrow> string \<Rightarrow> exn + pyval" where
  "py_getitem (PDict kv) n = (case map_of kv n of Some v \<Rightarrow> Inr v | None \<Rightarrow> Inl KeyError)"
| "py_getitem obj n = Inl TypeError"

text \<open>Decimal digits of an integer, as \<open>str\<close> prints it.\<close>

definition digit_char :: "nat \<Rightarrow> char" where
  "digit_char d = ''0123456789'' ! d"

function str_nat :: "nat \<Rightarrow> string" where
  "str_nat n =
     (if n < 10 then [digit_char n] else str_nat (n div 10) @ [digit_char (n mod 10)])"
  by pat_completeness auto
termination
  by (relation "measure id") auto

definition str_int :: "int \<Rightarrow> string" where
  "str_int i = (if i < 0 then CHR ''-'' # str_nat (nat (- i)) else str_nat (nat i))"

text \<open>
  A value inside an f-string: a string stands for itself, \<open>None\<close>, booleans and integers
  are printed as \<open>str\<close> prints them. The text of a float, a list or a dictionary is
  given by \<open>repr\<close>, a parameter of the model.
\<close>

definition format_value :: "(pyval \<Rightarrow> string) \<Rightarrow> pyval \<Rightarrow> string" where
  "format_value repr v =
     (case v of
        PStr s \<Rightarrow> s
      | PNone \<Rightarrow> ''None''
      | PBool b \<Rightarrow> (if b then ''True'' else ''False'')
      | PInt i \<Rightarrow> str_int i
      | _ \<Rightarrow> repr v)"

section \<open>The agent's state\<close>

text \<open>
  The class \<open>CryptoAgent\<close> of \<open>main.py\<close> owns three mutable fields: the conversation
  \<open>context\<close> (a list of role/content dictionaries), the price \<open>cache\<close> (a dictionary from
  the symbol to a dictionary with the fields \<open>price\<close> and \<open>timestamp\<close>; the symbol is
  whatever value the caller passes, the annotation \<open>str\<close> is not enforced) and the list
  \<open>request_timestamps\<close>. The fields \<open>rate_limit_window\<close> and \<open>rate_limit_max_requests\<close> are
  assigned once in \<open>__init__\<close> and never again, so they are constants here.

  Clock readings (\<open>time.time()\<close>) are inputs of the model. They are doubles, given here
  by their values, which are real numbers. The difference of two readings is computed in
  double arithmetic, which rounds: it is the parameter \<open>fsub\<close> of the model, and every
  test on an age is a test on \<open>fsub now t\<close>, never on the exact difference. (The result
  is only ever compared with 60, so any value from 60 on can stand for an infinite one.)
  The content of a message is optional because the completion API may answer with
  \<open>content = None\<close>, which the handlers append as it is.
\<close>

record message =
  role :: string
  content :: "string option"

record cache_entry =
  price :: string
  timestamp :: real

record agent =
  "context" :: "message list"
  cache :: "pyval \<rightharpoonup> cache_entry"
  request_timestamps :: "real list"

definition rate_limit_window :: real where
  "rate_limit_window = 60"

definition rate_limit_max_requests :: nat where
  "rate_limit_max_requests = 5"

definition init_agent :: agent where
  "init_agent = \<lparr>context = [], cache = Map.empty, request_timestamps = []\<rparr>"

definition add_message_to_context :: "string \<Rightarrow> string option \<Rightarrow> agent \<Rightarrow> agent" where
  "add_message_to_context r c s = s\<lparr>context := context s @ [\<lparr>role = r, content = c\<rparr>]\<rparr>"

section \<open>The rate limiter\<close>

text \<open>
  \<open>is_rate_limited\<close> reads the clock (\<open>current_time\<close>), keeps the timestamps \<open>t\<close> for
  which the double \<open>current_time - t\<close> is below \<open>rate_limit_window\<close>, and then either answers \<open>True\<close> (limited: the call is
  rejected) or appends \<open>now\<close> and answers \<open>False\<close> (the call is accepted).
\<close>

definition is_rate_limited :: "(real \<Rightarrow> real \<Rightarrow> real) \<Rightarrow> real \<Rightarrow> agent \<Rightarrow> bool \<times> agent" where
  "is_rate_limited fsub current_time s =
     (let ts = filter (\<lambda>t. fsub current_time t < rate_limit_window) (request_timestamps s) in
      if length ts \<ge> rate_limit_max_requests
      then (True, s\<lparr>request_timestamps := ts\<rparr>)
      else (False, s\<lparr>request_timestamps := ts @ [current_time]\<rparr>))"



section \<open>The price lookup\<close>

text \<open>
  What \<open>requests.get\<close> does is an input: it raises (\<open>RequestFails\<close>), or it returns a
  response with a status code and a body, the body given as \<open>response.json()\<close> decodes it
  (\<open>None\<close> when it is not JSON, where \<open>json()\<close> raises the \<open>JSONDecodeError\<close> of
  \<open>requests\<close>, a \<open>RequestException\<close>). \<open>raise_for_status\<close> raises for the status codes
  from 400 to 599.
\<close>

datatype http_result =
    RequestFails
  | Response nat "pyval option"

definition rate_limit_message :: string where
  "rate_limit_message = ''Rate limit exceeded. Please wait a moment before trying again.''"

definition failed_message :: string where
  "failed_message = ''Failed to fetch price.''"

definition not_available_message :: string where
  "not_available_message = ''Price not available.''"

definition price_message :: "string \<Rightarrow> string \<Rightarrow> string" where
  "price_message symbol p = ''The current price of '' @ symbol @ '' is $'' @ p @ '' USD.''"

text \<open>
  The body of the \<open>try\<close> block of \<open>get_crypto_price\<close> (lines 62 to 71): the request, the
  status check, the decoding, the two \<open>get\<close>s, and the branch on \<open>if price\<close>.
\<close>

definition price_request ::
  "(pyval \<Rightarrow> string) \<Rightarrow> real \<Rightarrow> http_result \<Rightarrow> pyval \<Rightarrow> agent \<Rightarrow> (exn + string) \<times> agent" where
  "price_request repr current_time api crypto_symbol s =
     (case api of
        RequestFails \<Rightarrow> (Inl RequestException, s)
      | Response status body \<Rightarrow>
          if 400 \<le> status \<and> status < 600 then (Inl RequestException, s)
          else (case body of
                  None \<Rightarrow> (Inl RequestException, s)
                | Some data \<Rightarrow>
                    (case py_get data crypto_symbol (PDict []) of
                       Inl e \<Rightarrow> (Inl e, s)
                     | Inr inner \<Rightarrow>
                         (case py_get inner (PStr ''usd'') PNone of
                            Inl e \<Rightarrow> (Inl e, s)
                          | Inr p \<Rightarrow>
                              if truthy p then
                                (let text = price_message (format_value repr crypto_symbol)
                                                          (format_value repr p)
                                 in (Inr text,
                                     s\<lparr>cache := (cache s)(crypto_symbol \<mapsto>
                                          \<lparr>price = text, timestamp = current_time\<rparr>)\<rparr>))
                              else (Inr not_available_message, s)))))"

text \<open>
  \<open>get_crypto_price\<close>, with the two clock readings (\<open>t1\<close> inside \<open>is_rate_limited\<close>,
  \<open>current_time\<close> at line 47) and the behaviour of the price API as inputs. It returns
  the string or the exception that leaves the function, the new state, and the number of
  requests sent. The only \<open>except\<close> clause catches \<open>RequestException\<close>
  (\<open>fetch_price\<close> is the \<open>try\<close> statement as a whole).
\<close>

definition fetch_price ::
  "(pyval \<Rightarrow> string) \<Rightarrow> real \<Rightarrow> http_result \<Rightarrow> pyval \<Rightarrow> agent \<Rightarrow> (exn + string) \<times> agent" where
  "fetch_price repr current_time api crypto_symbol s =
     (case price_request repr current_time api crypto_symbol s of
        (Inl e, s') \<Rightarrow> if e = RequestException then (Inr failed_message, s') else (Inl e, s')
      | (Inr text, s') \<Rightarrow> (Inr text, s'))"

text \<open>
  The cache test of line 51: an entry is used when it exists and the double
  \<open>current_time - cache_entry['timestamp']\<close> is below 60.
\<close>

definition cached_price ::
  "(real \<Rightarrow> real \<Rightarrow> real) \<Rightarrow> cache_entry option \<Rightarrow> real \<Rightarrow> string option" where
  "cached_price fsub cache_entry current_time =
     (case cache_entry of
        Some e \<Rightarrow> if fsub current_time (timestamp e) < 60 then Some (price e) else None
      | None \<Rightarrow> None)"

definition get_crypto_price ::
  "(real \<Rightarrow> real \<Rightarrow> real) \<Rightarrow> (pyval \<Rightarrow> string) \<Rightarrow> real \<Rightarrow> real \<Rightarrow> http_result \<Rightarrow> pyval
     \<Rightarrow> agent \<Rightarrow> (exn + string) \<times> agent \<times> nat" where
  "get_crypto_price fsub repr t1 current_time api crypto_symbol s =
     (let (limited, s1) = is_rate_limited fsub t1 s in
      if limited then (Inr rate_limit_message, s1, 0)
      else if \<not> hashable crypto_symbol then (Inl TypeError, s1, 0)
      else (case cached_price fsub (cache s1 crypto_symbol) current_time of
              Some text \<Rightarrow> (Inr text, s1, 0)
            | None \<Rightarrow>
                (let (r, s2) = fetch_price repr current_time api crypto_symbol s1
                 in (r, s2, 1))))"

section \<open>The completion API\<close>

text \<open>
  What \<open>client.chat.completions.create\<close> does is an input: it raises, or it returns a
  response whose \<open>choices\<close> each carry a message with an optional \<open>content\<close> and a list
  of \<open>tool_calls\<close> (empty when the field is \<open>None\<close>); a tool call has the name of a
  function and its arguments as JSON text. \<open>json.loads\<close> is a parameter of the model:
  it answers \<open>None\<close> where the library raises \<open>JSONDecodeError\<close>.
\<close>

datatype tool_call = ToolCall (function_name: string) (function_arguments: string)

datatype choice = Choice (message_content: "string option") (message_tool_calls: "tool_call list")

datatype completion =
    CompletionRaises exn
  | Completion "choice list"

section \<open>The intent classifier\<close>

text \<open>
  The pattern of line 91 opens with three backticks, \<open>json\<close>, a newline and a brace;
  then comes the shortest text that is followed by a brace, a newline and three
  backticks. \<open>re.search\<close> answers the match that starts first; its group is the text from
  the opening brace to the closing brace.
\<close>

definition fence_open :: string where
  "fence_open = [CHR 0x60, CHR 0x60, CHR 0x60] @ ''json'' @ [CHR 0x0A] @ ''{''"

definition fence_close :: string where
  "fence_close = ''}'' @ [CHR 0x0A, CHR 0x60, CHR 0x60, CHR 0x60]"

fun lazy_until :: "string \<Rightarrow> string \<Rightarrow> string option" where
  "lazy_until stop [] = (if stop = [] then Some [] else None)"
| "lazy_until stop (x # xs) =
     (if prefix stop (x # xs) then Some [] else map_option ((#) x) (lazy_until stop xs))"

fun re_search_json :: "string \<Rightarrow> string option" where
  "re_search_json [] = None"
| "re_search_json (x # xs) =
     (if prefix fence_open (x # xs) then
        (case lazy_until fence_close (drop (length fence_open) (x # xs)) of
           Some body \<Rightarrow> Some (''{'' @ body @ ''}'')
         | None \<Rightarrow> re_search_json xs)
      else re_search_json xs)"

definition general_intent :: "(string \<times> pyval) list" where
  "general_intent = [(''intent'', PStr ''general'')]"

text \<open>
  The \<open>try\<close> block of \<open>classify_intent\<close> (lines 85 to 98). \<open>choices[0]\<close> of an empty list
  raises \<open>IndexError\<close>; \<open>re.search\<close> on a content that is \<open>None\<close> raises \<open>TypeError\<close>.
\<close>

definition classify_intent_try ::
  "(string \<Rightarrow> pyval option) \<Rightarrow> completion \<Rightarrow> exn + (string \<times> pyval) list" where
  "classify_intent_try json_loads llm =
     (case llm of
        CompletionRaises e \<Rightarrow> Inl e
      | Completion [] \<Rightarrow> Inl IndexError
      | Completion (c # cs) \<Rightarrow>
          (case message_content c of
             None \<Rightarrow> Inl TypeError
           | Some response_text \<Rightarrow>
               (case re_search_json response_text of
                  Some json_match \<Rightarrow>
                    (case json_loads json_match of
                       None \<Rightarrow> Inl JSONDecodeError
                     | Some intent_data \<Rightarrow>
                         (case py_get intent_data (PStr ''intent'') PNone of
                            Inl e \<Rightarrow> Inl e
                          | Inr intent \<Rightarrow> Inr [(''intent'', intent)]))
                | None \<Rightarrow> Inr general_intent)))"

text \<open>
  \<open>classify_intent\<close> with its two \<open>except\<close> clauses: the first for \<open>JSONDecodeError\<close>,
  \<open>AttributeError\<close> and \<open>KeyError\<close>, the second for every \<open>Exception\<close>.
\<close>

definition classify_intent ::
  "(string \<Rightarrow> pyval option) \<Rightarrow> completion \<Rightarrow> exn + (string \<times> pyval) list" where
  "classify_intent json_loads llm =
     (case classify_intent_try json_loads llm of
        Inl e \<Rightarrow>
          if e = JSONDecodeError \<or> e = AttributeError \<or> e = KeyError then Inr general_intent
          else Inr general_intent
      | Inr classification \<Rightarrow> Inr classification)"

section \<open>The handlers\<close>

definition intro_message :: string where
  "intro_message = ''Hello! You are interacting with a cryptocurrency expert. I can provide real-time crypto prices and answer related questions. If you misspell a crypto name, I will correct it for you.''"

definition language_change_message :: string where
  "language_change_message = ''I have noted your language change request. You can continue using the new language, but I will respond in English to ensure consistency and clarity.''"

definition has_assistant :: "message list \<Rightarrow> bool" where
  "has_assistant ctx = list_ex (\<lambda>msg. role msg = ''assistant'') ctx"

text \<open>Lines 144 to 148: the introduction, added when no message of the context is the assistant's.\<close>

definition add_intro :: "agent \<Rightarrow> agent" where
  "add_intro s =
     (if \<not> has_assistant (context s)
      then add_message_to_context ''assistant'' (Some intro_message) s
      else s)"

text \<open>A message of the assistant, as the handlers append it.\<close>

definition assistant_message :: "string option \<Rightarrow> message" where
  "assistant_message c = \<lparr>role = ''assistant'', content = c\<rparr>"

text \<open>
  \<open>print(f"Assistant: {text}")\<close> at lines 167, 171 and 193, inside the \<open>try\<close> blocks and
  after the message was appended: it raises \<open>UnicodeEncodeError\<close> when standard output
  cannot encode the text. Which texts it can encode is the parameter \<open>printable\<close>; a
  content \<open>None\<close> is printed as the word \<open>None\<close>. The fixed texts of the program and the
  reports of the \<open>except\<close> clauses are taken to print.
\<close>

definition print_assistant :: "(string \<Rightarrow> bool) \<Rightarrow> string option \<Rightarrow> exn option" where
  "print_assistant printable response_text =
     (case response_text of
        None \<Rightarrow> None
      | Some x \<Rightarrow> if printable x then None else Some UnicodeEncodeError)"

text \<open>
  The loop over the tool calls (lines 161 to 167). The \<open>i\<close>-th tool call finds the clock
  readings and the price API as \<open>env i\<close> gives them. The loop stops at the first
  exception, which is returned with the state reached.
\<close>

type_synonym price_env = "real \<times> real \<times> http_result"

fun run_tool_calls ::
  "(real \<Rightarrow> real \<Rightarrow> real) \<Rightarrow> (string \<Rightarrow> bool) \<Rightarrow> (pyval \<Rightarrow> string) \<Rightarrow> (string \<Rightarrow> pyval option)
     \<Rightarrow> (nat \<Rightarrow> price_env) \<Rightarrow> nat \<Rightarrow> tool_call list \<Rightarrow> agent \<Rightarrow> exn option \<times> agent" where
  "run_tool_calls fsub printable repr json_loads env i [] s = (None, s)"
| "run_tool_calls fsub printable repr json_loads env i (tc # tcs) s =
     (if function_name tc = ''get_crypto_price'' then
        (case json_loads (function_arguments tc) of
           None \<Rightarrow> (Some JSONDecodeError, s)
         | Some arguments \<Rightarrow>
             (case py_getitem arguments ''crypto_symbol'' of
                Inl e \<Rightarrow> (Some e, s)
              | Inr crypto_symbol \<Rightarrow>
                  (case env i of (t1, t2, api) \<Rightarrow>
                     (case get_crypto_price fsub repr t1 t2 api crypto_symbol s of
                        (Inl e, s1, n) \<Rightarrow> (Some e, s1)
                      | (Inr price_info, s1, n) \<Rightarrow>
                          (case print_assistant printable (Some price_info) of
                             Some e \<Rightarrow>
                               (Some e, add_message_to_context ''assistant'' (Some price_info) s1)
                           | None \<Rightarrow>
                               run_tool_calls fsub printable repr json_loads env (Suc i) tcs
                                 (add_message_to_context ''assistant'' (Some price_info) s1))))))
      else run_tool_calls fsub printable repr json_loads env (Suc i) tcs s)"

text \<open>The \<open>try\<close> block of \<open>process_crypto_query\<close> (lines 152 to 171).\<close>

definition process_crypto_query_try ::
  "(real \<Rightarrow> real \<Rightarrow> real) \<Rightarrow> (string \<Rightarrow> bool) \<Rightarrow> (pyval \<Rightarrow> string) \<Rightarrow> (string \<Rightarrow> pyval option)
     \<Rightarrow> completion \<Rightarrow> (nat \<Rightarrow> price_env) \<Rightarrow> agent \<Rightarrow> exn option \<times> agent" where
  "process_crypto_query_try fsub printable repr json_loads llm env s =
     (case llm of
        CompletionRaises e \<Rightarrow> (Some e, s)
      | Completion [] \<Rightarrow> (Some IndexError, s)
      | Completion (c # cs) \<Rightarrow>
          if message_tool_calls c \<noteq> []
          then run_tool_calls fsub printable repr json_loads env 0 (message_tool_calls c) s
          else (print_assistant printable (message_content c),
                add_message_to_context ''assistant'' (message_content c) s))"

text \<open>
  \<open>process_crypto_query\<close>: the introduction, then the \<open>try\<close> block under its two
  \<open>except\<close> clauses. The first component of the result is the exception that leaves
  the handler, if any.
\<close>

definition process_crypto_query ::
  "(real \<Rightarrow> real \<Rightarrow> real) \<Rightarrow> (string \<Rightarrow> bool) \<Rightarrow> (pyval \<Rightarrow> string) \<Rightarrow> (string \<Rightarrow> pyval option)
     \<Rightarrow> completion \<Rightarrow> (nat \<Rightarrow> price_env) \<Rightarrow> agent \<Rightarrow> exn option \<times> agent" where
  "process_crypto_query fsub printable repr json_loads llm env s =
     (case process_crypto_query_try fsub printable repr json_loads llm env (add_intro s) of
        (None, s') \<Rightarrow> (None, s')
      | (Some e, s') \<Rightarrow>
          if e = JSONDecodeError \<or> e = AttributeError \<or> e = KeyError then (None, s')
          else (None, s'))"

definition process_language_change :: "agent \<Rightarrow> agent" where
  "process_language_change s =
     add_message_to_context ''assistant'' (Some language_change_message) s"

text \<open>\<open>process_general_query\<close>: its \<open>try\<close> block (lines 187 to 193), then the whole.\<close>

definition process_general_query_try ::
  "(string \<Rightarrow> bool) \<Rightarrow> completion \<Rightarrow> agent \<Rightarrow> exn option \<times> agent" where
  "process_general_query_try printable llm s =
     (case llm of
        CompletionRaises e \<Rightarrow> (Some e, s)
      | Completion [] \<Rightarrow> (Some IndexError, s)
      | Completion (c # cs) \<Rightarrow>
          (print_assistant printable (message_content c),
           add_message_to_context ''assistant'' (message_content c) s))"

definition process_general_query ::
  "(string \<Rightarrow> bool) \<Rightarrow> completion \<Rightarrow> agent \<Rightarrow> exn option \<times> agent" where
  "process_general_query printable llm s =
     (case process_general_query_try printable llm s of
        (None, s') \<Rightarrow> (None, s')
      | (Some e, s') \<Rightarrow>
          if e = AttributeError \<or> e = KeyError then (None, s') else (None, s'))"

section \<open>The dispatcher\<close>

text \<open>
  \<open>process_user_message\<close>: the user's message is appended, the intent is classified (one
  completion), and one handler runs (with a second completion for the crypto and the
  general handler). \<open>classification.get("intent", "general")\<close> reads the dictionary that
  \<open>classify_intent\<close> returned.
\<close>

definition process_user_message ::
  "(real \<Rightarrow> real \<Rightarrow> real) \<Rightarrow> (string \<Rightarrow> bool) \<Rightarrow> (pyval \<Rightarrow> string) \<Rightarrow> (string \<Rightarrow> pyval option)
     \<Rightarrow> completion \<Rightarrow> completion \<Rightarrow> (nat \<Rightarrow> price_env) \<Rightarrow> string \<Rightarrow> agent
     \<Rightarrow> exn option \<times> agent" where
  "process_user_message fsub printable repr json_loads classifier_llm handler_llm env
       user_message s =
     (let s1 = add_message_to_context ''user'' (Some user_message) s in
      case classify_intent json_loads classifier_llm of
        Inl e \<Rightarrow> (Some e, s1)
      | Inr classification \<Rightarrow>
          (let intent = (case map_of classification ''intent'' of
                           Some v \<Rightarrow> v
                         | None \<Rightarrow> PStr ''general'')
           in if intent = PStr ''crypto''
              then process_crypto_query fsub printable repr json_loads handler_llm env s1
              else if intent = PStr ''language_change''
              then (None, process_language_change s1)
              else process_general_query printable handler_llm s1))"

section \<open>Scenarios\<close>

text \<open>
  For the examples: \<open>exact_sub\<close> is the double subtraction on the readings used below,
  small integers, on which it is exact. \<open>no_repr\<close> stands for \<open>repr\<close>, none of the
  examples formats a float, a list or a dictionary. \<open>ascii_stdout\<close> is a standard output
  that encodes the ASCII characters only. \<open>get_crypto_price_twice\<close> is one call of
  \<open>get_crypto_price\<close> after another for the same symbol, each with its own clock
  readings and its own answer of the price API; it returns both results, the final state
  and the number of requests sent.
\<close>

definition exact_sub :: "real \<Rightarrow> real \<Rightarrow> real" where
  "exact_sub a b = a - b"

definition no_repr :: "pyval \<Rightarrow> string" where
  "no_repr v = []"

definition ascii_stdout :: "string \<Rightarrow> bool" where
  "ascii_stdout x = list_all (\<lambda>c. (of_char c :: nat) < 128) x"

definition get_crypto_price_twice ::
  "(real \<Rightarrow> real \<Rightarrow> real) \<Rightarrow> (pyval \<Rightarrow> string) \<Rightarrow> price_env \<Rightarrow> price_env \<Rightarrow> pyval \<Rightarrow> agent
     \<Rightarrow> (exn + string) \<times> (exn + string) \<times> agent \<times> nat" where
  "get_crypto_price_twice fsub repr first second crypto_symbol s =
     (case first of (t1, t2, api) \<Rightarrow>
      case second of (t3, t4, api') \<Rightarrow>
      case get_crypto_price fsub repr t1 t2 api crypto_symbol s of (r1, s1, n1) \<Rightarrow>
      case get_crypto_price fsub repr t3 t4 api' crypto_symbol s1 of (r2, s2, n2) \<Rightarrow>
        (r1, r2, s2, n1 + n2))"

text \<open>
  \<open>sample_json_loads\<close> agrees with \<open>json.loads\<close> on the three JSON texts it knows and on
  the texts used below that are not JSON; \<open>sample_env\<close> answers every price request with
  65000 USD for \<open>bitcoin\<close>, at the clock reading \<open>i\<close> for the \<open>i\<close>-th tool call;
  \<open>user_asks\<close> is a fresh agent after the user's first message; \<open>fenced\<close> wraps a text in
  the fence that the classifier's prompt asks for.
\<close>

definition quoted :: "string \<Rightarrow> string" where
  "quoted x = [CHR 0x22] @ x @ [CHR 0x22]"

definition sample_json_loads :: "string \<Rightarrow> pyval option" where
  "sample_json_loads x =
     (if x = ''{}'' then Some (PDict [])
      else if x = ''{'' @ quoted ''intent'' @ '': '' @ quoted ''crypto'' @ ''}''
      then Some (PDict [(''intent'', PStr ''crypto'')])
      else if x = ''{'' @ quoted ''crypto_symbol'' @ '': '' @ quoted ''bitcoin'' @ ''}''
      then Some (PDict [(''crypto_symbol'', PStr ''bitcoin'')])
      else None)"

definition sample_env :: "nat \<Rightarrow> price_env" where
  "sample_env i =
     (real i, real i, Response 200 (Some (PDict [(''bitcoin'', PDict [(''usd'', PInt 65000)])])))"

definition user_asks :: agent where
  "user_asks = add_message_to_context ''user'' (Some ''bitcoin?'') init_agent"

definition bitcoin_call :: tool_call where
  "bitcoin_call =
     ToolCall ''get_crypto_price''
       (''{'' @ quoted ''crypto_symbol'' @ '': '' @ quoted ''bitcoin'' @ ''}'')"

definition fenced :: "string \<Rightarrow> string" where
  "fenced x = [CHR 0x60, CHR 0x60, CHR 0x60] @ ''json'' @ [CHR 0x0A] @ x
                @ [CHR 0x0A, CHR 0x60, CHR 0x60, CHR 0x60]"

section \<open>Properties of the rate limiter\<close>







lemma is_rate_limited_decision:
  "fst (is_rate_limited fsub now s) =
     (rate_limit_max_requests
        \<le> length (filter (\<lambda>t. fsub now t < rate_limit_window) (request_timestamps s)))"
  by (simp add: is_rate_limited_def Let_def)



section \<open>Properties of the price lookup\<close>

lemma is_rate_limited_cache [simp]: "cache (snd (is_rate_limited fsub t s)) = cache s"
  by (simp add: is_rate_limited_def Let_def)

lemma is_rate_limited_context [simp]: "context (snd (is_rate_limited fsub t s)) = context s"
  by (simp add: is_rate_limited_def Let_def)

lemma get_crypto_price_limited:
  "fst (is_rate_limited fsub t1 s) \<Longrightarrow>
   get_crypto_price fsub repr t1 t2 api k s = (Inr rate_limit_message, snd (is_rate_limited fsub t1 s), 0)"
  by (simp add: get_crypto_price_def Let_def split_beta)

lemma get_crypto_price_hit:
  "\<not> fst (is_rate_limited fsub t1 s) \<Longrightarrow> hashable k \<Longrightarrow> cached_price fsub (cache s k) t2 = Some text \<Longrightarrow>
   get_crypto_price fsub repr t1 t2 api k s = (Inr text, snd (is_rate_limited fsub t1 s), 0)"
  by (simp add: get_crypto_price_def Let_def split_beta)

lemma get_crypto_price_miss:
  "\<not> fst (is_rate_limited fsub t1 s) \<Longrightarrow> hashable k \<Longrightarrow> cached_price fsub (cache s k) t2 = None \<Longrightarrow>
   get_crypto_price fsub repr t1 t2 api k s =
     (fst (fetch_price repr t2 api k (snd (is_rate_limited fsub t1 s))),
      snd (fetch_price repr t2 api k (snd (is_rate_limited fsub t1 s))), 1)"
  by (simp add: get_crypto_price_def Let_def split_beta)

lemma get_crypto_price_unhashable:
  "\<not> fst (is_rate_limited fsub t1 s) \<Longrightarrow> \<not> hashable k \<Longrightarrow>
   get_crypto_price fsub repr t1 t2 api k s = (Inl TypeError, snd (is_rate_limited fsub t1 s), 0)"
  by (simp add: get_crypto_price_def Let_def split_beta)

lemma price_request_context [simp]: "context (snd (price_request repr t api k s)) = context s"
  by (simp add: price_request_def Let_def split: http_result.splits option.splits sum.splits)

lemma price_request_timestamps [simp]:
  "request_timestamps (snd (price_request repr t api k s)) = request_timestamps s"
  by (simp add: price_request_def Let_def split: http_result.splits option.splits sum.splits)

lemma fetch_price_context [simp]: "context (snd (fetch_price repr t api k s)) = context s"
proof -
  have "context (snd (price_request repr t api k s)) = context s" by simp
  then show ?thesis
    by (simp add: fetch_price_def split_beta split: sum.splits)
qed

lemma fetch_price_timestamps [simp]:
  "request_timestamps (snd (fetch_price repr t api k s)) = request_timestamps s"
proof -
  have "request_timestamps (snd (price_request repr t api k s)) = request_timestamps s" by simp
  then show ?thesis
    by (simp add: fetch_price_def split_beta split: sum.splits)
qed

lemma get_crypto_price_shape:
  "get_crypto_price fsub repr t1 t2 api k s = (Inr rate_limit_message, snd (is_rate_limited fsub t1 s), 0)
   \<or> get_crypto_price fsub repr t1 t2 api k s = (Inl TypeError, snd (is_rate_limited fsub t1 s), 0)
   \<or> (\<exists>out. get_crypto_price fsub repr t1 t2 api k s = (Inr out, snd (is_rate_limited fsub t1 s), 0))
   \<or> get_crypto_price fsub repr t1 t2 api k s =
        (fst (fetch_price repr t2 api k (snd (is_rate_limited fsub t1 s))),
         snd (fetch_price repr t2 api k (snd (is_rate_limited fsub t1 s))), 1)"
  by (simp add: get_crypto_price_def Let_def split_beta split: option.splits)

lemma get_crypto_price_context [simp]:
  "context (fst (snd (get_crypto_price fsub repr t1 t2 api k s))) = context s"
  using get_crypto_price_shape [of fsub repr t1 t2 api k s] by auto

lemma get_crypto_price_timestamps:
  "request_timestamps (fst (snd (get_crypto_price fsub repr t1 t2 api k s)))
     = request_timestamps (snd (is_rate_limited fsub t1 s))"
  using get_crypto_price_shape [of fsub repr t1 t2 api k s] by auto

lemma get_crypto_price_requests: "snd (snd (get_crypto_price fsub repr t1 t2 api k s)) \<le> 1"
  using get_crypto_price_shape [of fsub repr t1 t2 api k s] by auto

text \<open>The failures of the request itself leave the state as it was.\<close>

lemma fetch_price_transport_failure:
  "api = RequestFails \<or> (api = Response status body \<and> 400 \<le> status \<and> status < 600) \<Longrightarrow>
   fetch_price repr t api k s = (Inr failed_message, s)"
  by (auto simp: fetch_price_def price_request_def)

lemma format_value_PStr [simp]: "format_value repr (PStr x) = x"
  by (simp add: format_value_def)

lemma fetch_price_found:
  "\<not> (400 \<le> status \<and> status < 600) \<Longrightarrow> map_of kv symbol = Some (PDict kv') \<Longrightarrow>
   map_of kv' ''usd'' = Some p \<Longrightarrow> truthy p \<Longrightarrow>
   fetch_price repr t (Response status (Some (PDict kv))) (PStr symbol) s =
     (Inr (price_message symbol (format_value repr p)),
      s\<lparr>cache := (cache s)(PStr symbol \<mapsto>
           \<lparr>price = price_message symbol (format_value repr p), timestamp = t\<rparr>)\<rparr>)"
  by (auto simp: fetch_price_def price_request_def Let_def)

lemma fetch_price_falsy:
  "\<not> (400 \<le> status \<and> status < 600) \<Longrightarrow> map_of kv symbol = Some (PDict kv') \<Longrightarrow>
   map_of kv' ''usd'' = Some p \<Longrightarrow> \<not> truthy p \<Longrightarrow>
   fetch_price repr t (Response status (Some (PDict kv))) (PStr symbol) s =
     (Inr not_available_message, s)"
  by (auto simp: fetch_price_def price_request_def)

lemma fetch_price_absent:
  "\<not> (400 \<le> status \<and> status < 600) \<Longrightarrow>
   map_of kv symbol = None \<or> (map_of kv symbol = Some (PDict kv') \<and> map_of kv' ''usd'' = None) \<Longrightarrow>
   fetch_price repr t (Response status (Some (PDict kv))) (PStr symbol) s =
     (Inr not_available_message, s)"
  by (auto simp: fetch_price_def price_request_def)


lemma is_rate_limited_accepted:
  "\<not> fst (is_rate_limited fsub t s) \<Longrightarrow>
   snd (is_rate_limited fsub t s) =
     s\<lparr>request_timestamps :=
          filter (\<lambda>x. fsub t x < rate_limit_window) (request_timestamps s) @ [t]\<rparr>"
  by (simp add: is_rate_limited_def Let_def split: if_splits)

lemma is_rate_limited_first:
  "is_rate_limited exact_sub 0 init_agent = (False, init_agent\<lparr>request_timestamps := [0]\<rparr>)"
  by (simp add: is_rate_limited_def init_agent_def rate_limit_max_requests_def)

lemma get_crypto_price_fetched:
  assumes "\<not> fst (is_rate_limited fsub t1 s)"
    and "cached_price fsub (cache s (PStr symbol)) t2 = None"
    and "\<not> (400 \<le> status \<and> status < 600)"
    and "map_of kv symbol = Some (PDict kv')"
    and "map_of kv' ''usd'' = Some p"
    and "truthy p"
  shows "get_crypto_price fsub repr t1 t2 (Response status (Some (PDict kv))) (PStr symbol) s
      = (Inr (price_message symbol (format_value repr p)),
         (snd (is_rate_limited fsub t1 s))
           \<lparr>cache := (cache s)(PStr symbol \<mapsto>
              \<lparr>price = price_message symbol (format_value repr p), timestamp = t2\<rparr>)\<rparr>,
         1)"
  using assms(1,2) fetch_price_found [OF assms(3-6), of repr t2 "snd (is_rate_limited fsub t1 s)"]
  by (simp add: get_crypto_price_miss)

text \<open>
  Claim C2. The claim says that \<open>get_crypto_price\<close> never ends by an exception. On a
  fresh agent, for the symbol \<open>bitcoin\<close>, when the price API answers with status 200 and
  a body that is the JSON array \<open>[]\<close>, \<open>data.get\<close> raises \<open>AttributeError\<close>; the only
  \<open>except\<close> clause is for \<open>RequestException\<close>, so the exception leaves the function
  (after the timestamp was recorded and the request sent).
\<close>

theorem get_crypto_price_list_body:
  "get_crypto_price exact_sub no_repr 0 0 (Response 200 (Some (PList []))) (PStr ''bitcoin'') init_agent
     = (Inl AttributeError, init_agent\<lparr>request_timestamps := [0]\<rparr>, 1)"
  by (simp add: get_crypto_price_def is_rate_limited_def rate_limit_max_requests_def
      init_agent_def cached_price_def fetch_price_def price_request_def)

text \<open>
  Claim C3, as stated, fails where the \<open>usd\<close> field is present with the price 0: the
  test \<open>if price\<close> is false for it, so the answer is the "not available" message, not
  the formatted price, and nothing is cached.
\<close>

theorem zero_price_not_available:
  "get_crypto_price exact_sub no_repr 0 0
     (Response 200 (Some (PDict [(''bitcoin'', PDict [(''usd'', PInt 0)])])))
     (PStr ''bitcoin'') init_agent
     = (Inr not_available_message, init_agent\<lparr>request_timestamps := [0]\<rparr>, 1)
   \<and> not_available_message \<noteq> price_message ''bitcoin'' (format_value no_repr (PInt 0))"
  by (simp add: get_crypto_price_def is_rate_limited_def rate_limit_max_requests_def
      init_agent_def cached_price_def fetch_price_def price_request_def
      not_available_message_def price_message_def)

text \<open>
  Claim C3, amended. For a call that the rate limiter accepts and the cache does not
  answer, and a response with a 2xx status whose body decodes to an object: when the
  symbol key is absent, or its object has no \<open>usd\<close> field, the answer is the "not
  available" message and the cache is unchanged; when the \<open>usd\<close> field holds a value
  that is true in Python (a number other than zero), the answer is the formatted text,
  stored in the cache under the symbol with the reading \<open>current_time\<close>; when it holds a
  value that is false (zero, \<open>null\<close>, \<open>false\<close>, an empty string, list or object), the
  answer is the "not available" message and the cache is unchanged.
\<close>

theorem price_lookup_response:
  assumes "\<not> fst (is_rate_limited fsub t1 s)"
    and "cached_price fsub (cache s (PStr symbol)) t2 = None"
    and "200 \<le> status" and "status < 300"
  shows "(map_of kv symbol = None
            \<or> (map_of kv symbol = Some (PDict kv') \<and> map_of kv' ''usd'' = None)
          \<longrightarrow> get_crypto_price fsub repr t1 t2 (Response status (Some (PDict kv))) (PStr symbol) s
                = (Inr not_available_message, snd (is_rate_limited fsub t1 s), 1)
              \<and> cache (snd (is_rate_limited fsub t1 s)) = cache s)
    \<and> (map_of kv symbol = Some (PDict kv') \<and> map_of kv' ''usd'' = Some p \<and> truthy p
          \<longrightarrow> get_crypto_price fsub repr t1 t2 (Response status (Some (PDict kv))) (PStr symbol) s
                = (Inr (price_message symbol (format_value repr p)),
                   (snd (is_rate_limited fsub t1 s))
                     \<lparr>cache := (cache s)(PStr symbol \<mapsto>
                        \<lparr>price = price_message symbol (format_value repr p),
                         timestamp = t2\<rparr>)\<rparr>,
                   1))
    \<and> (map_of kv symbol = Some (PDict kv') \<and> map_of kv' ''usd'' = Some p \<and> \<not> truthy p
          \<longrightarrow> get_crypto_price fsub repr t1 t2 (Response status (Some (PDict kv))) (PStr symbol) s
                = (Inr not_available_message, snd (is_rate_limited fsub t1 s), 1)
              \<and> cache (snd (is_rate_limited fsub t1 s)) = cache s)"
proof -
  have st: "\<not> (400 \<le> status \<and> status < 600)"
    using assms(4) by simp
  have miss: "get_crypto_price fsub repr t1 t2 (Response status (Some (PDict kv))) (PStr symbol) s =
     (fst (fetch_price repr t2 (Response status (Some (PDict kv))) (PStr symbol)
             (snd (is_rate_limited fsub t1 s))),
      snd (fetch_price repr t2 (Response status (Some (PDict kv))) (PStr symbol)
             (snd (is_rate_limited fsub t1 s))), 1)"
    using assms(1,2) by (simp add: get_crypto_price_miss)
  show ?thesis
    unfolding miss
    using fetch_price_absent [OF st, of kv symbol kv' repr t2 "snd (is_rate_limited fsub t1 s)"]
      fetch_price_found [OF st, of kv symbol kv' p repr t2 "snd (is_rate_limited fsub t1 s)"]
      fetch_price_falsy [OF st, of kv symbol kv' p repr t2 "snd (is_rate_limited fsub t1 s)"]
    by simp
qed

text \<open>
  Examples on a fresh agent: an empty object, the price 65000, and the price 0.0.
\<close>

theorem price_lookup_response_witness:
  "get_crypto_price exact_sub no_repr 0 0 (Response 200 (Some (PDict []))) (PStr ''bitcoin'') init_agent
     = (Inr ''Price not available.'', init_agent\<lparr>request_timestamps := [0]\<rparr>, 1)
   \<and> get_crypto_price exact_sub no_repr 0 0
       (Response 200 (Some (PDict [(''bitcoin'', PDict [(''usd'', PInt 65000)])])))
       (PStr ''bitcoin'') init_agent
     = (Inr ''The current price of bitcoin is $65000 USD.'',
        init_agent\<lparr>request_timestamps := [0],
          cache := [PStr ''bitcoin'' \<mapsto>
            \<lparr>price = ''The current price of bitcoin is $65000 USD.'', timestamp = 0\<rparr>]\<rparr>,
        1)
   \<and> get_crypto_price exact_sub no_repr 0 0
       (Response 200 (Some (PDict [(''bitcoin'', PDict [(''usd'', PFloat 0)])])))
       (PStr ''bitcoin'') init_agent
     = (Inr ''Price not available.'', init_agent\<lparr>request_timestamps := [0]\<rparr>, 1)"
proof -
  have acc: "\<not> fst (is_rate_limited exact_sub 0 init_agent)"
    by (simp add: is_rate_limited_first)
  have miss: "cached_price exact_sub (cache init_agent (PStr ''bitcoin'')) 0 = None"
    by (simp add: init_agent_def cached_price_def)
  have ok: "(200::nat) \<le> 200" "(200::nat) < 300"
    by simp_all
  have empty: "cache init_agent = Map.empty"
    by (simp add: init_agent_def)
  have msg: "price_message ''bitcoin'' (format_value no_repr (PInt 65000))
      = ''The current price of bitcoin is $65000 USD.''"
    by (simp add: price_message_def format_value_def str_int_def digit_char_def)
  have a: "get_crypto_price exact_sub no_repr 0 0 (Response 200 (Some (PDict []))) (PStr ''bitcoin'') init_agent
     = (Inr ''Price not available.'', init_agent\<lparr>request_timestamps := [0]\<rparr>, 1)"
    using price_lookup_response [OF acc miss ok, of "[]" "[]" no_repr PNone]
    by (simp add: is_rate_limited_first not_available_message_def)
  have b: "get_crypto_price exact_sub no_repr 0 0
       (Response 200 (Some (PDict [(''bitcoin'', PDict [(''usd'', PInt 65000)])])))
       (PStr ''bitcoin'') init_agent
     = (Inr ''The current price of bitcoin is $65000 USD.'',
        init_agent\<lparr>request_timestamps := [0],
          cache := [PStr ''bitcoin'' \<mapsto>
            \<lparr>price = ''The current price of bitcoin is $65000 USD.'', timestamp = 0\<rparr>]\<rparr>,
        1)"
    using price_lookup_response [OF acc miss ok,
        of "[(''bitcoin'', PDict [(''usd'', PInt 65000)])]" "[(''usd'', PInt 65000)]"
           no_repr "PInt 65000"]
    by (simp add: is_rate_limited_first msg empty)
  have c: "get_crypto_price exact_sub no_repr 0 0
       (Response 200 (Some (PDict [(''bitcoin'', PDict [(''usd'', PFloat 0)])])))
       (PStr ''bitcoin'') init_agent
     = (Inr ''Price not available.'', init_agent\<lparr>request_timestamps := [0]\<rparr>, 1)"
    using price_lookup_response [OF acc miss ok,
        of "[(''bitcoin'', PDict [(''usd'', PFloat 0)])]" "[(''usd'', PFloat 0)]"
           no_repr "PFloat 0"]
    by (simp add: is_rate_limited_first not_available_message_def)
  from a b c show ?thesis by blast
qed

text \<open>
  Claim C4. When the rate limiter rejects the call, \<open>get_crypto_price\<close> returns the
  advisory string, sends no request, and leaves the cache (every key of it) as it was;
  when \<open>requests.get\<close> raises or the status is one \<open>raise_for_status\<close> raises for,
  the cache is as it was, and a call that did send the request returns the "failed"
  message.
\<close>

theorem rejected_or_failed_keeps_cache:
  "(fst (is_rate_limited fsub t1 s)
      \<longrightarrow> get_crypto_price fsub repr t1 t2 api k s
            = (Inr rate_limit_message, snd (is_rate_limited fsub t1 s), 0)
          \<and> cache (snd (is_rate_limited fsub t1 s)) = cache s)
   \<and> (api = RequestFails \<or> (api = Response status body \<and> 400 \<le> status \<and> status < 600)
      \<longrightarrow> cache (fst (snd (get_crypto_price fsub repr t1 t2 api k s))) = cache s
          \<and> (snd (snd (get_crypto_price fsub repr t1 t2 api k s)) = 1
                \<longrightarrow> fst (get_crypto_price fsub repr t1 t2 api k s) = Inr failed_message))"
proof -
  have a: "fst (is_rate_limited fsub t1 s)
      \<longrightarrow> get_crypto_price fsub repr t1 t2 api k s
            = (Inr rate_limit_message, snd (is_rate_limited fsub t1 s), 0)
          \<and> cache (snd (is_rate_limited fsub t1 s)) = cache s"
    by (simp add: get_crypto_price_limited)
  have b: "cache (fst (snd (get_crypto_price fsub repr t1 t2 api k s))) = cache s
          \<and> (snd (snd (get_crypto_price fsub repr t1 t2 api k s)) = 1
                \<longrightarrow> fst (get_crypto_price fsub repr t1 t2 api k s) = Inr failed_message)"
    if f: "api = RequestFails \<or> (api = Response status body \<and> 400 \<le> status \<and> status < 600)"
    using get_crypto_price_shape [of fsub repr t1 t2 api k s]
      fetch_price_transport_failure [OF f, of repr t2 k "snd (is_rate_limited fsub t1 s)"]
    by auto
  from a b show ?thesis by blast
qed

text \<open>
  A sixth call at reading 50 after five within the window is rejected; a status 500 on a
  fresh agent leaves the cache empty.
\<close>

theorem rejected_or_failed_keeps_cache_witness:
  "get_crypto_price exact_sub no_repr 50 50 RequestFails (PStr ''bitcoin'')
       (init_agent\<lparr>request_timestamps := [0, 10, 20, 30, 40]\<rparr>)
     = (Inr ''Rate limit exceeded. Please wait a moment before trying again.'',
        init_agent\<lparr>request_timestamps := [0, 10, 20, 30, 40]\<rparr>, 0)
   \<and> cache (fst (snd (get_crypto_price exact_sub no_repr 0 0 (Response 500 None) (PStr ''bitcoin'')
        init_agent))) = Map.empty"
proof -
  have lim: "is_rate_limited exact_sub 50 (init_agent\<lparr>request_timestamps := [0, 10, 20, 30, 40]\<rparr>)
      = (True, init_agent\<lparr>request_timestamps := [0, 10, 20, 30, 40]\<rparr>)"
    by (simp add: is_rate_limited_def rate_limit_max_requests_def rate_limit_window_def
        exact_sub_def)
  have a: "get_crypto_price exact_sub no_repr 50 50 RequestFails (PStr ''bitcoin'')
       (init_agent\<lparr>request_timestamps := [0, 10, 20, 30, 40]\<rparr>)
     = (Inr ''Rate limit exceeded. Please wait a moment before trying again.'',
        init_agent\<lparr>request_timestamps := [0, 10, 20, 30, 40]\<rparr>, 0)"
    using rejected_or_failed_keeps_cache [of exact_sub 50
        "init_agent\<lparr>request_timestamps := [0, 10, 20, 30, 40]\<rparr>"
        no_repr 50 RequestFails "PStr ''bitcoin''" 0 None]
    by (simp add: lim rate_limit_message_def)
  have b: "cache (fst (snd (get_crypto_price exact_sub no_repr 0 0 (Response 500 None) (PStr ''bitcoin'')
        init_agent))) = Map.empty"
    using rejected_or_failed_keeps_cache [of exact_sub 0 init_agent no_repr 0 "Response 500 None"
        "PStr ''bitcoin''" 500 None]
    by (simp add: init_agent_def)
  from a b show ?thesis by blast
qed

text \<open>
  Claim C10. A call that the rate limiter accepts leaves its reading \<open>t1\<close> at the end of
  the record, after the timestamps that passed the test of line 30, whatever happens
  afterwards; in particular a call that the cache answers (by the test of line 51) sends
  no request and still has its timestamp in the record.
\<close>

theorem accepted_call_is_recorded:
  assumes "\<not> fst (is_rate_limited fsub t1 s)"
  shows "request_timestamps (fst (snd (get_crypto_price fsub repr t1 t2 api k s)))
           = filter (\<lambda>x. fsub t1 x < rate_limit_window) (request_timestamps s) @ [t1]
    \<and> (hashable k \<and> cached_price fsub (cache s k) t2 = Some out
          \<longrightarrow> get_crypto_price fsub repr t1 t2 api k s
                = (Inr out,
                   s\<lparr>request_timestamps :=
                       filter (\<lambda>x. fsub t1 x < rate_limit_window) (request_timestamps s) @ [t1]\<rparr>,
                   0))"
  using assms
  by (simp add: get_crypto_price_timestamps get_crypto_price_hit is_rate_limited_accepted)

text \<open>
  A cache entry of age 10 answers the call, which is recorded as the second timestamp.
\<close>

theorem accepted_call_is_recorded_witness:
  "get_crypto_price exact_sub no_repr 10 10 RequestFails (PStr ''bitcoin'')
     \<lparr>context = [],
      cache = [PStr ''bitcoin'' \<mapsto> \<lparr>price = ''cached text'', timestamp = 0\<rparr>],
      request_timestamps = [0]\<rparr>
   = (Inr ''cached text'',
      \<lparr>context = [],
       cache = [PStr ''bitcoin'' \<mapsto> \<lparr>price = ''cached text'', timestamp = 0\<rparr>],
       request_timestamps = [0, 10]\<rparr>, 0)"
proof -
  have acc: "\<not> fst (is_rate_limited exact_sub 10 \<lparr>context = [],
      cache = [PStr ''bitcoin'' \<mapsto> \<lparr>price = ''cached text'', timestamp = 0\<rparr>],
      request_timestamps = [0]\<rparr>)"
    by (simp add: is_rate_limited_def rate_limit_max_requests_def rate_limit_window_def
        exact_sub_def)
  show ?thesis
    using accepted_call_is_recorded [OF acc, of no_repr 10 RequestFails "PStr ''bitcoin''"
        "''cached text''"]
    by (simp add: cached_price_def rate_limit_window_def exact_sub_def)
qed

text \<open>
  Claim C9, as stated, fails: on a fresh agent, a call at reading 0 that meets a status
  500 and a call for the same symbol one second later that meets a price differ in their
  output, and each sends a request.
\<close>

theorem failed_fetch_is_repeated:
  "get_crypto_price_twice exact_sub no_repr (0, 0, Response 500 None)
     (1, 1, Response 200 (Some (PDict [(''bitcoin'', PDict [(''usd'', PInt 65000)])])))
     (PStr ''bitcoin'') init_agent
   = (Inr ''Failed to fetch price.'', Inr ''The current price of bitcoin is $65000 USD.'',
      \<lparr>context = [],
       cache = [PStr ''bitcoin'' \<mapsto>
          \<lparr>price = ''The current price of bitcoin is $65000 USD.'', timestamp = 1\<rparr>],
       request_timestamps = [0, 1]\<rparr>, 2)"
  by (simp add: get_crypto_price_twice_def get_crypto_price_def is_rate_limited_def
      rate_limit_max_requests_def rate_limit_window_def exact_sub_def
      init_agent_def cached_price_def fetch_price_def price_request_def
      failed_message_def price_message_def format_value_def str_int_def digit_char_def Let_def)

text \<open>
  Claim C9, amended. When a call fetches a price (it is accepted, the cache does not
  answer, the response has a 2xx status and a true \<open>usd\<close> value), a second call for the
  same symbol that the rate limiter accepts, at a reading \<open>t4\<close> within the freshness
  window of the first call's reading \<open>t2\<close> as line 51 tests it (the double \<open>t4 - t2\<close> is
  below 60), returns the same string and sends no request: one request for both.
\<close>

theorem fresh_price_is_reused:
  assumes "\<not> fst (is_rate_limited fsub t1 s)"
    and "cached_price fsub (cache s (PStr symbol)) t2 = None"
    and "200 \<le> status" and "status < 300"
    and "map_of kv symbol = Some (PDict kv')"
    and "map_of kv' ''usd'' = Some p"
    and "truthy p"
    and "\<not> fst (is_rate_limited fsub t3 (fst (snd (get_crypto_price fsub repr t1 t2
            (Response status (Some (PDict kv))) (PStr symbol) s))))"
    and "fsub t4 t2 < 60"
  shows "fst (get_crypto_price_twice fsub repr (t1, t2, Response status (Some (PDict kv)))
                (t3, t4, api') (PStr symbol) s)
           = Inr (price_message symbol (format_value repr p))
    \<and> fst (snd (get_crypto_price_twice fsub repr (t1, t2, Response status (Some (PDict kv)))
                (t3, t4, api') (PStr symbol) s))
           = Inr (price_message symbol (format_value repr p))
    \<and> snd (snd (snd (get_crypto_price_twice fsub repr (t1, t2, Response status (Some (PDict kv)))
                (t3, t4, api') (PStr symbol) s))) = 1"
proof -
  let ?out = "price_message symbol (format_value repr p)"
  let ?s1 = "(snd (is_rate_limited fsub t1 s))
               \<lparr>cache := (cache s)(PStr symbol \<mapsto> \<lparr>price = ?out, timestamp = t2\<rparr>)\<rparr>"
  have first: "get_crypto_price fsub repr t1 t2 (Response status (Some (PDict kv))) (PStr symbol) s
      = (Inr ?out, ?s1, 1)"
  proof (rule get_crypto_price_fetched [OF assms(1,2) _ assms(5,6,7)])
    show "\<not> (400 \<le> status \<and> status < 600)"
      using assms(4) by simp
  qed
  have acc: "\<not> fst (is_rate_limited fsub t3 ?s1)"
    using assms(8) by (simp add: first)
  have hit: "cached_price fsub (cache ?s1 (PStr symbol)) t4 = Some ?out"
    using assms(9) by (simp add: cached_price_def)
  have second: "get_crypto_price fsub repr t3 t4 api' (PStr symbol) ?s1
      = (Inr ?out, snd (is_rate_limited fsub t3 ?s1), 0)"
    using acc hit by (simp add: get_crypto_price_hit)
  show ?thesis
    by (simp add: get_crypto_price_twice_def first second)
qed

text \<open>
  A price fetched at reading 0 answers the call at reading 30, whatever the API would do.
\<close>

theorem fresh_price_is_reused_witness:
  "fst (get_crypto_price_twice exact_sub no_repr
     (0, 0, Response 200 (Some (PDict [(''bitcoin'', PDict [(''usd'', PInt 65000)])])))
     (30, 30, RequestFails) (PStr ''bitcoin'') init_agent)
     = Inr ''The current price of bitcoin is $65000 USD.''
   \<and> fst (snd (get_crypto_price_twice exact_sub no_repr
     (0, 0, Response 200 (Some (PDict [(''bitcoin'', PDict [(''usd'', PInt 65000)])])))
     (30, 30, RequestFails) (PStr ''bitcoin'') init_agent))
     = Inr ''The current price of bitcoin is $65000 USD.''
   \<and> snd (snd (snd (get_crypto_price_twice exact_sub no_repr
        (0, 0, Response 200 (Some (PDict [(''bitcoin'', PDict [(''usd'', PInt 65000)])])))
        (30, 30, RequestFails) (PStr ''bitcoin'') init_agent))) = 1"
proof -
  have acc: "\<not> fst (is_rate_limited exact_sub 0 init_agent)"
    by (simp add: is_rate_limited_first)
  have miss: "cached_price exact_sub (cache init_agent (PStr ''bitcoin'')) 0 = None"
    by (simp add: init_agent_def cached_price_def)
  have ok: "(200::nat) \<le> 200" "(200::nat) < 300"
    by simp_all
  have k1: "map_of [(''bitcoin'', PDict [(''usd'', PInt 65000)])] ''bitcoin''
      = Some (PDict [(''usd'', PInt 65000)])"
    by simp
  have k2: "map_of [(''usd'', PInt 65000)] ''usd'' = Some (PInt 65000)"
    by simp
  have tr: "truthy (PInt 65000)"
    by simp
  have acc2: "\<not> fst (is_rate_limited exact_sub 30 (fst (snd (get_crypto_price exact_sub no_repr 0 0
      (Response 200 (Some (PDict [(''bitcoin'', PDict [(''usd'', PInt 65000)])])))
      (PStr ''bitcoin'') init_agent))))"
    by (simp add: is_rate_limited_decision get_crypto_price_timestamps is_rate_limited_first
        rate_limit_max_requests_def)
  have near: "exact_sub 30 0 < 60"
    by (simp add: exact_sub_def)
  have msg: "price_message ''bitcoin'' (format_value no_repr (PInt 65000))
      = ''The current price of bitcoin is $65000 USD.''"
    by (simp add: price_message_def format_value_def str_int_def digit_char_def)
  note T = fresh_price_is_reused [OF acc miss ok k1 k2 tr acc2 near, of RequestFails,
      unfolded msg]
  show ?thesis
    using T by blast
qed

section \<open>Properties of the conversation context\<close>

lemma add_message_to_context_context [simp]:
  "context (add_message_to_context r c s) = context s @ [\<lparr>role = r, content = c\<rparr>]"
  by (simp add: add_message_to_context_def)

lemma has_assistant_append [simp]:
  "has_assistant (xs @ ys) = (has_assistant xs \<or> has_assistant ys)"
  by (simp add: has_assistant_def)

lemma has_assistant_prefix:
  "prefix xs ys \<Longrightarrow> has_assistant xs \<Longrightarrow> has_assistant ys"
  by (auto simp: prefix_def)

lemma add_intro_context:
  "context (add_intro s) =
     context s @ (if has_assistant (context s) then [] else [assistant_message (Some intro_message)])"
  by (simp add: add_intro_def assistant_message_def)

lemma add_intro_prefix: "prefix (context s) (context (add_intro s))"
  by (simp add: add_intro_context)

lemma add_intro_has_assistant: "has_assistant (context (add_intro s))"
  by (simp add: add_intro_def has_assistant_def)

text \<open>
  What the loop over the tool calls appends: for some of the tool calls, in order, the
  text that \<open>get_crypto_price\<close> returned.
\<close>

lemma run_tool_calls_messages:
  "\<exists>ps. length ps \<le> length tcs
     \<and> context (snd (run_tool_calls fsub printable repr jl env i tcs s))
         = context s @ map (\<lambda>p. assistant_message (Some p)) ps
     \<and> (\<forall>p\<in>set ps. \<exists>t1 t2 api k s'.
           fst (get_crypto_price fsub repr t1 t2 api k s') = Inr p)"
proof (induction tcs arbitrary: i s)
  case Nil
  show ?case by (rule exI [of _ "[]"]) simp
next
  case (Cons tc tcs)
  have none: ?case
    if "context (snd (run_tool_calls fsub printable repr jl env i (tc # tcs) s)) = context s"
    using that by (intro exI [of _ "[]"]) (simp del: run_tool_calls.simps)
  have skip: ?case
    if eq: "run_tool_calls fsub printable repr jl env i (tc # tcs) s
         = run_tool_calls fsub printable repr jl env (Suc i) tcs s"
  proof -
    from Cons.IH [of "Suc i" s] obtain ps where
      "length ps \<le> length tcs"
      "context (snd (run_tool_calls fsub printable repr jl env (Suc i) tcs s))
         = context s @ map (\<lambda>p. assistant_message (Some p)) ps"
      "\<forall>p\<in>set ps. \<exists>t1 t2 api k s'. fst (get_crypto_price fsub repr t1 t2 api k s') = Inr p"
      by blast
    then show ?thesis
      unfolding eq by (intro exI [of _ ps]) (simp del: run_tool_calls.simps)
  qed
  show ?case
  proof (cases "function_name tc = ''get_crypto_price''")
    case False
    then show ?thesis by (intro skip) simp
  next
    case True
    show ?thesis
    proof (cases "jl (function_arguments tc)")
      case None
      with True show ?thesis by (intro none) simp
    next
      case (Some arguments)
      show ?thesis
      proof (cases "py_getitem arguments ''crypto_symbol''")
        case (Inl e)
        with True Some show ?thesis by (intro none) simp
      next
        case (Inr k)
        obtain t1 t2 api where env: "env i = (t1, t2, api)"
          by (cases "env i") auto
        obtain r s1 n where call: "get_crypto_price fsub repr t1 t2 api k s = (r, s1, n)"
          by (cases "get_crypto_price fsub repr t1 t2 api k s") auto
        have same: "context s1 = context s"
          using get_crypto_price_context [of fsub repr t1 t2 api k s] by (simp add: call)
        show ?thesis
        proof (cases r)
          case (Inl e)
          with True Some Inr env call same show ?thesis by (intro none) simp
        next
          case price: (Inr price_info)
          let ?s2 = "add_message_to_context ''assistant'' (Some price_info) s1"
          have s2: "context ?s2 = context s @ [assistant_message (Some price_info)]"
            by (simp add: same assistant_message_def)
          have "fst (get_crypto_price fsub repr t1 t2 api k s) = Inr price_info"
            by (simp add: call price)
          then have from_call: "\<exists>t1 t2 api k s'.
              fst (get_crypto_price fsub repr t1 t2 api k s') = Inr price_info"
            by blast
          show ?thesis
          proof (cases "print_assistant printable (Some price_info)")
            case (Some e)
            with True \<open>jl (function_arguments tc) = Some arguments\<close> Inr env call price
            have "run_tool_calls fsub printable repr jl env i (tc # tcs) s = (Some e, ?s2)"
              by simp
            then have "context (snd (run_tool_calls fsub printable repr jl env i (tc # tcs) s))
                = context s @ map (\<lambda>p. assistant_message (Some p)) [price_info]"
              by (simp add: same assistant_message_def del: run_tool_calls.simps)
            with from_call show ?thesis
              by (intro exI [of _ "[price_info]"]) (simp del: run_tool_calls.simps)
          next
            case None
            with True \<open>jl (function_arguments tc) = Some arguments\<close> Inr env call price
            have eq: "run_tool_calls fsub printable repr jl env i (tc # tcs) s
                = run_tool_calls fsub printable repr jl env (Suc i) tcs ?s2"
              by simp
            from Cons.IH [of "Suc i" ?s2] obtain ps where ps:
              "length ps \<le> length tcs"
              "context (snd (run_tool_calls fsub printable repr jl env (Suc i) tcs ?s2))
                 = context ?s2 @ map (\<lambda>p. assistant_message (Some p)) ps"
              "\<forall>p\<in>set ps. \<exists>t1 t2 api k s'.
                 fst (get_crypto_price fsub repr t1 t2 api k s') = Inr p"
              by blast
            from ps(2) have "context (snd (run_tool_calls fsub printable repr jl env i (tc # tcs) s))
                = context s @ map (\<lambda>p. assistant_message (Some p)) (price_info # ps)"
              unfolding eq by (simp add: same assistant_message_def)
            with ps(1,3) from_call show ?thesis
              by (intro exI [of _ "price_info # ps"]) (simp del: run_tool_calls.simps)
          qed
        qed
      qed
    qed
  qed
qed

lemma run_tool_calls_prefix:
  "prefix (context s) (context (snd (run_tool_calls fsub printable repr jl env i tcs s)))"
  using run_tool_calls_messages [of tcs fsub printable repr jl env i s]
  by (auto simp: prefix_def)

lemma process_crypto_query_try_prefix:
  "prefix (context s) (context (snd (process_crypto_query_try fsub printable repr jl llm env s)))"
  by (auto simp: process_crypto_query_try_def run_tool_calls_prefix
      split: completion.splits list.splits)

lemma process_crypto_query_snd:
  "snd (process_crypto_query fsub printable repr jl llm env s)
     = snd (process_crypto_query_try fsub printable repr jl llm env (add_intro s))"
  by (simp add: process_crypto_query_def split: prod.splits option.splits)


lemma process_crypto_query_prefix_intro:
  "prefix (context (add_intro s))
     (context (snd (process_crypto_query fsub printable repr jl llm env s)))"
  by (simp add: process_crypto_query_snd process_crypto_query_try_prefix)

lemma process_crypto_query_prefix:
  "prefix (context s) (context (snd (process_crypto_query fsub printable repr jl llm env s)))"
  using add_intro_prefix [of s]
    process_crypto_query_prefix_intro [of s fsub printable repr jl llm env]
  by (rule prefix_order.trans)

lemma process_general_query_snd:
  "snd (process_general_query printable llm s) = snd (process_general_query_try printable llm s)"
  by (simp add: process_general_query_def split: prod.splits option.splits)


lemma process_general_query_prefix:
  "prefix (context s) (context (snd (process_general_query printable llm s)))"
  by (simp add: process_general_query_snd process_general_query_try_def
      split: completion.splits list.splits)

lemma process_language_change_prefix:
  "prefix (context s) (context (process_language_change s))"
  by (simp add: process_language_change_def)

lemma process_user_message_prefix:
  "prefix (context s)
     (context (snd (process_user_message fsub printable repr jl cl hl env user_message s)))"
proof -
  let ?s1 = "add_message_to_context ''user'' (Some user_message) s"
  have first: "prefix (context s) (context ?s1)"
    by simp
  have "prefix (context ?s1)
     (context (snd (process_user_message fsub printable repr jl cl hl env user_message s)))"
    by (simp add: process_user_message_def Let_def process_crypto_query_prefix
        process_general_query_prefix process_language_change_prefix
        split: sum.splits del: add_message_to_context_context)
  with first show ?thesis
    by (rule prefix_order.trans)
qed

text \<open>
  Claim C8. The context is append-only: after \<open>add_message_to_context\<close>, after each of
  the three handlers and after \<open>process_user_message\<close>, the context before is a prefix of
  the context after, so no message was removed, moved or changed; \<open>get_crypto_price\<close>
  leaves the context as it is. (\<open>classify_intent\<close> takes and returns no state.)
\<close>

theorem context_append_only:
  "prefix (context s) (context (add_message_to_context r c s))
   \<and> context (fst (snd (get_crypto_price fsub repr t1 t2 api k s))) = context s
   \<and> prefix (context s) (context (snd (process_crypto_query fsub printable repr jl hl env s)))
   \<and> prefix (context s) (context (process_language_change s))
   \<and> prefix (context s) (context (snd (process_general_query printable hl s)))
   \<and> prefix (context s)
        (context (snd (process_user_message fsub printable repr jl cl hl env user_message s)))"
  by (simp add: process_crypto_query_prefix process_language_change_prefix
      process_general_query_prefix process_user_message_prefix)

text \<open>
  Claim C6. The crypto handler appends the scripted introduction exactly when the context
  has no message of the assistant: the handler ends in the state that its \<open>try\<close> block
  reaches from the state before, to which the introduction was added if and only if no
  message of the assistant was there. So, whatever the completion does, the context
  after the handler is the context before, then the introduction under that condition,
  then what the completion leads to (nothing when it fails, its reply, or texts returned
  by \<open>get_crypto_price\<close>, at most one for each tool call).
  After the handler the context has a message of the assistant, and so has every later
  context that extends it (the context only grows, claim C8): on every later entry the
  handler adds no introduction.
\<close>

theorem introduction_once:
  "snd (process_crypto_query fsub printable repr jl llm env s)
     = snd (process_crypto_query_try fsub printable repr jl llm env
              (if has_assistant (context s) then s
               else add_message_to_context ''assistant'' (Some intro_message) s))
   \<and> (llm = CompletionRaises e \<or> llm = Completion []
      \<longrightarrow> context (snd (process_crypto_query fsub printable repr jl llm env s))
            = context s
              @ (if has_assistant (context s) then []
                 else [assistant_message (Some intro_message)]))
   \<and> (llm = Completion (Choice c [] # cs)
      \<longrightarrow> context (snd (process_crypto_query fsub printable repr jl llm env s))
            = context s
              @ (if has_assistant (context s) then []
                 else [assistant_message (Some intro_message)])
              @ [assistant_message c])
   \<and> (llm = Completion (Choice c tcs # cs) \<and> tcs \<noteq> []
      \<longrightarrow> (\<exists>ps. length ps \<le> length tcs
            \<and> context (snd (process_crypto_query fsub printable repr jl llm env s))
                = context s
                  @ (if has_assistant (context s) then []
                     else [assistant_message (Some intro_message)])
                  @ map (\<lambda>p. assistant_message (Some p)) ps
            \<and> (\<forall>p\<in>set ps. \<exists>t1 t2 api k s'.
                  fst (get_crypto_price fsub repr t1 t2 api k s') = Inr p)))
   \<and> has_assistant (context (snd (process_crypto_query fsub printable repr jl llm env s)))
   \<and> (prefix (context (snd (process_crypto_query fsub printable repr jl llm env s)))
          (context s')
      \<longrightarrow> has_assistant (context s'))"
proof -
  let ?after = "context (snd (process_crypto_query fsub printable repr jl llm env s))"
  let ?intro = "if has_assistant (context s) then []
                else [assistant_message (Some intro_message)]"
  have failed: "llm = CompletionRaises e \<or> llm = Completion [] \<longrightarrow> ?after = context s @ ?intro"
    by (auto simp: process_crypto_query_snd process_crypto_query_try_def add_intro_context)
  have prose: "llm = Completion (Choice c [] # cs)
      \<longrightarrow> ?after = context s @ ?intro @ [assistant_message c]"
    by (simp add: process_crypto_query_snd process_crypto_query_try_def add_intro_context
        assistant_message_def)
  have tools: "\<exists>ps. length ps \<le> length tcs
            \<and> ?after = context s @ ?intro @ map (\<lambda>p. assistant_message (Some p)) ps
            \<and> (\<forall>p\<in>set ps. \<exists>t1 t2 api k s'.
                  fst (get_crypto_price fsub repr t1 t2 api k s') = Inr p)"
    if llm: "llm = Completion (Choice c tcs # cs)" and some: "tcs \<noteq> []"
  proof -
    have "snd (process_crypto_query fsub printable repr jl llm env s)
        = snd (run_tool_calls fsub printable repr jl env 0 tcs (add_intro s))"
      using some by (simp add: llm process_crypto_query_snd process_crypto_query_try_def)
    then show ?thesis
      using run_tool_calls_messages [of tcs fsub printable repr jl env 0 "add_intro s"]
      by (simp add: add_intro_context)
  qed
  have has: "has_assistant ?after"
    using process_crypto_query_prefix_intro add_intro_has_assistant
    by (rule has_assistant_prefix)
  have later: "prefix ?after (context s') \<longrightarrow> has_assistant (context s')"
    using has by (auto intro: has_assistant_prefix)
  have whole: "snd (process_crypto_query fsub printable repr jl llm env s)
     = snd (process_crypto_query_try fsub printable repr jl llm env
              (if has_assistant (context s) then s
               else add_message_to_context ''assistant'' (Some intro_message) s))"
    by (simp add: process_crypto_query_snd add_intro_def)
  from whole failed prose tools has later show ?thesis
    by blast
qed

lemma user_asks_context:
  "context user_asks = [\<lparr>role = ''user'', content = Some ''bitcoin?''\<rparr>]"
  by (simp add: user_asks_def init_agent_def)

lemma user_asks_no_assistant: "\<not> has_assistant (context user_asks)"
  by (simp add: user_asks_context has_assistant_def)

text \<open>
  In the first crypto turn of a conversation the introduction is added, whether the
  completion fails or answers; when the handler is entered again after that, with a
  failing completion or with an answer, no introduction is added.
\<close>

theorem introduction_once_witness:
  "context (snd (process_crypto_query exact_sub ascii_stdout no_repr sample_json_loads
       (CompletionRaises ClientError) sample_env user_asks))
     = [\<lparr>role = ''user'', content = Some ''bitcoin?''\<rparr>,
        assistant_message (Some intro_message)]
   \<and> context (snd (process_crypto_query exact_sub ascii_stdout no_repr sample_json_loads
       (Completion [Choice (Some ''hello'') []]) sample_env user_asks))
     = [\<lparr>role = ''user'', content = Some ''bitcoin?''\<rparr>,
        assistant_message (Some intro_message), assistant_message (Some ''hello'')]
   \<and> context (snd (process_crypto_query exact_sub ascii_stdout no_repr sample_json_loads
       (CompletionRaises ClientError) sample_env
       (snd (process_crypto_query exact_sub ascii_stdout no_repr sample_json_loads
          (Completion [Choice (Some ''hello'') []]) sample_env user_asks))))
     = [\<lparr>role = ''user'', content = Some ''bitcoin?''\<rparr>,
        assistant_message (Some intro_message), assistant_message (Some ''hello'')]
   \<and> context (snd (process_crypto_query exact_sub ascii_stdout no_repr sample_json_loads
       (Completion [Choice (Some ''again'') []]) sample_env
       (snd (process_crypto_query exact_sub ascii_stdout no_repr sample_json_loads
          (Completion [Choice (Some ''hello'') []]) sample_env user_asks))))
     = [\<lparr>role = ''user'', content = Some ''bitcoin?''\<rparr>,
        assistant_message (Some intro_message), assistant_message (Some ''hello''),
        assistant_message (Some ''again'')]
   \<and> (\<exists>ps. length ps \<le> 1
        \<and> context (snd (process_crypto_query exact_sub ascii_stdout no_repr sample_json_loads
             (Completion [Choice None [bitcoin_call]]) sample_env user_asks))
          = [\<lparr>role = ''user'', content = Some ''bitcoin?''\<rparr>,
             assistant_message (Some intro_message)]
            @ map (\<lambda>p. assistant_message (Some p)) ps)"
proof -
  let ?hello = "snd (process_crypto_query exact_sub ascii_stdout no_repr sample_json_loads
          (Completion [Choice (Some ''hello'') []]) sample_env user_asks)"
  have a: "context (snd (process_crypto_query exact_sub ascii_stdout no_repr sample_json_loads
       (CompletionRaises ClientError) sample_env user_asks))
     = [\<lparr>role = ''user'', content = Some ''bitcoin?''\<rparr>,
        assistant_message (Some intro_message)]"
    using introduction_once [of exact_sub ascii_stdout no_repr sample_json_loads
        "CompletionRaises ClientError" sample_env user_asks ClientError]
      user_asks_no_assistant
    by (auto simp: user_asks_context)
  have b: "context ?hello
     = [\<lparr>role = ''user'', content = Some ''bitcoin?''\<rparr>,
        assistant_message (Some intro_message), assistant_message (Some ''hello'')]"
    using introduction_once [of exact_sub ascii_stdout no_repr sample_json_loads
        "Completion [Choice (Some ''hello'') []]" sample_env user_asks ClientError "Some ''hello''" "[]"]
      user_asks_no_assistant
    by (auto simp: user_asks_context)
  have has: "has_assistant (context ?hello)"
    using introduction_once [of exact_sub ascii_stdout no_repr sample_json_loads
        "Completion [Choice (Some ''hello'') []]" sample_env user_asks ClientError]
    by blast
  have c: "context (snd (process_crypto_query exact_sub ascii_stdout no_repr sample_json_loads
       (CompletionRaises ClientError) sample_env ?hello))
     = [\<lparr>role = ''user'', content = Some ''bitcoin?''\<rparr>,
        assistant_message (Some intro_message), assistant_message (Some ''hello'')]"
    using introduction_once [of exact_sub ascii_stdout no_repr sample_json_loads
        "CompletionRaises ClientError" sample_env ?hello ClientError] has
    by (auto simp: b)
  have d: "context (snd (process_crypto_query exact_sub ascii_stdout no_repr sample_json_loads
       (Completion [Choice (Some ''again'') []]) sample_env ?hello))
     = [\<lparr>role = ''user'', content = Some ''bitcoin?''\<rparr>,
        assistant_message (Some intro_message), assistant_message (Some ''hello''),
        assistant_message (Some ''again'')]"
    using introduction_once [of exact_sub ascii_stdout no_repr sample_json_loads
        "Completion [Choice (Some ''again'') []]" sample_env ?hello ClientError "Some ''again''" "[]"] has
    by (auto simp: b)
  have e: "\<exists>ps. length ps \<le> 1
        \<and> context (snd (process_crypto_query exact_sub ascii_stdout no_repr sample_json_loads
             (Completion [Choice None [bitcoin_call]]) sample_env user_asks))
          = [\<lparr>role = ''user'', content = Some ''bitcoin?''\<rparr>,
             assistant_message (Some intro_message)]
            @ map (\<lambda>p. assistant_message (Some p)) ps"
    using introduction_once [of exact_sub ascii_stdout no_repr sample_json_loads
        "Completion [Choice None [bitcoin_call]]" sample_env user_asks ClientError None "[]" "[bitcoin_call]"]
      user_asks_no_assistant
    by (auto simp: user_asks_context)
  from a b c d e show ?thesis
    by blast
qed

section \<open>Errors inside the handlers\<close>










section \<open>Properties of the intent classifier\<close>

text \<open>
  The search answers a group exactly when the text contains the opening of the fence and,
  after it, its closing.
\<close>

lemma lazy_until_sound:
  "lazy_until stop xs = Some p \<Longrightarrow> \<exists>rest. xs = p @ stop @ rest"
proof (induction xs arbitrary: p)
  case Nil
  then show ?case by (auto split: if_splits)
next
  case (Cons x xs)
  show ?case
  proof (cases "prefix stop (x # xs)")
    case True
    with Cons.prems show ?thesis by (auto simp: prefix_def)
  next
    case False
    with Cons.prems obtain q where "lazy_until stop xs = Some q" "p = x # q"
      by auto
    with Cons.IH show ?thesis by auto
  qed
qed

lemma lazy_until_complete:
  "lazy_until stop xs = None \<Longrightarrow> xs \<noteq> p @ stop @ rest"
proof (induction xs arbitrary: p)
  case Nil
  then show ?case by (auto split: if_splits)
next
  case (Cons x xs)
  then show ?case
    by (cases p) (auto simp: prefix_def split: if_splits)
qed

lemma re_search_json_sound:
  "re_search_json xs = Some g \<Longrightarrow>
   \<exists>pre body post. xs = pre @ fence_open @ body @ fence_close @ post \<and> g = ''{'' @ body @ ''}''"
proof (induction xs)
  case Nil
  then show ?case by simp
next
  case (Cons x xs)
  show ?case
  proof (cases "prefix fence_open (x # xs)
      \<and> lazy_until fence_close (drop (length fence_open) (x # xs)) \<noteq> None")
    case True
    then obtain body where body: "lazy_until fence_close (drop (length fence_open) (x # xs)) = Some body"
      by auto
    from True obtain tl where tl: "x # xs = fence_open @ tl"
      by (auto simp: prefix_def)
    from body tl have "lazy_until fence_close tl = Some body"
      by simp
    then obtain post where "tl = body @ fence_close @ post"
      using lazy_until_sound by blast
    with tl have "x # xs = [] @ fence_open @ body @ fence_close @ post"
      by simp
    moreover have "g = ''{'' @ body @ ''}''"
      using Cons.prems True body by simp
    ultimately show ?thesis by blast
  next
    case False
    with Cons.prems have "re_search_json xs = Some g"
      by (auto split: if_splits option.splits)
    with Cons.IH obtain pre body post
      where "xs = pre @ fence_open @ body @ fence_close @ post" "g = ''{'' @ body @ ''}''"
      by blast
    then have "x # xs = (x # pre) @ fence_open @ body @ fence_close @ post \<and> g = ''{'' @ body @ ''}''"
      by simp
    then show ?thesis by blast
  qed
qed

lemma re_search_json_complete:
  "re_search_json xs = None \<Longrightarrow> xs \<noteq> pre @ fence_open @ body @ fence_close @ post"
proof (induction xs arbitrary: pre)
  case Nil
  then show ?case by (simp add: fence_open_def)
next
  case (Cons x xs)
  note none = Cons.prems and hyp = Cons.IH
  show ?case
  proof (cases pre)
    case Nil
    show ?thesis
    proof
      assume eq: "x # xs = pre @ fence_open @ body @ fence_close @ post"
      with Nil have pf: "prefix fence_open (x # xs)"
        by (simp add: prefix_def)
      from eq Nil have "drop (length fence_open) (x # xs) = body @ fence_close @ post"
        by simp
      then have "lazy_until fence_close (drop (length fence_open) (x # xs)) \<noteq> None"
        using lazy_until_complete [of fence_close _ body post] by metis
      with pf none show False
        by (auto split: option.splits)
    qed
  next
    case (Cons y pre')
    from none have "re_search_json xs = None"
      by (auto split: if_splits option.splits)
    then have "xs \<noteq> pre' @ fence_open @ body @ fence_close @ post"
      by (rule hyp)
    with Cons show ?thesis by simp
  qed
qed

lemma classify_intent_returns: "\<exists>d. classify_intent jl llm = Inr d"
  by (simp add: classify_intent_def split: sum.splits)

lemma classify_intent_failure:
  "classify_intent_try jl llm = Inl e \<Longrightarrow> classify_intent jl llm = Inr general_intent"
  by (simp add: classify_intent_def)

lemma classify_intent_success:
  "classify_intent_try jl llm = Inr d \<Longrightarrow> classify_intent jl llm = Inr d"
  by (simp add: classify_intent_def)

lemma dispatch_none_intent:
  "classify_intent jl cl = Inr [(''intent'', PNone)] \<Longrightarrow>
   process_user_message fsub printable repr jl cl hl env user_message s
     = process_general_query printable hl (add_message_to_context ''user'' (Some user_message) s)"
  by (simp add: process_user_message_def)

text \<open>
  Claim C5, as stated, fails where the fenced object has no \<open>intent\<close> field: for the
  reply that is a fence around \<open>{}\<close>, \<open>intent_data.get("intent")\<close> is \<open>None\<close> and
  \<open>classify_intent\<close> returns the dictionary with the intent \<open>None\<close>, not \<open>general\<close>.
\<close>

theorem missing_intent_is_none:
  "classify_intent sample_json_loads (Completion [Choice (Some (fenced ''{}'')) []])
     = Inr [(''intent'', PNone)]
   \<and> [(''intent'', PNone)] \<noteq> general_intent"
  by (simp add: classify_intent_def classify_intent_try_def fenced_def fence_open_def
      fence_close_def sample_json_loads_def general_intent_def)

text \<open>
  Claim C5, amended. \<open>classify_intent\<close> always returns a dictionary, never an
  exception. It returns the intent \<open>general\<close> when the completion call raises, when the
  reply has no fenced block, and when the text of the block is not JSON. When the block
  is an object with an \<open>intent\<close> field it returns the value of the field. When the field
  is missing it returns the intent \<open>None\<close>, which the dispatcher hands to the general
  handler.
\<close>

theorem classify_intent_defaults:
  "(\<exists>d. classify_intent jl llm = Inr d)
   \<and> (llm = CompletionRaises e \<longrightarrow> classify_intent jl llm = Inr general_intent)
   \<and> (llm = Completion (Choice (Some response_text) tcs # cs)
        \<and> re_search_json response_text = None
      \<longrightarrow> classify_intent jl llm = Inr general_intent)
   \<and> (llm = Completion (Choice (Some response_text) tcs # cs)
        \<and> re_search_json response_text = Some json_match \<and> jl json_match = None
      \<longrightarrow> classify_intent jl llm = Inr general_intent)
   \<and> (llm = Completion (Choice (Some response_text) tcs # cs)
        \<and> re_search_json response_text = Some json_match
        \<and> jl json_match = Some (PDict kv) \<and> map_of kv ''intent'' = Some v
      \<longrightarrow> classify_intent jl llm = Inr [(''intent'', v)])
   \<and> (llm = Completion (Choice (Some response_text) tcs # cs)
        \<and> re_search_json response_text = Some json_match
        \<and> jl json_match = Some (PDict kv) \<and> map_of kv ''intent'' = None
      \<longrightarrow> classify_intent jl llm = Inr [(''intent'', PNone)]
          \<and> process_user_message fsub printable repr jl llm hl env user_message s
              = process_general_query printable hl
                  (add_message_to_context ''user'' (Some user_message) s))"
proof -
  have raised: "llm = CompletionRaises e \<longrightarrow> classify_intent jl llm = Inr general_intent"
    by (auto simp: classify_intent_try_def intro: classify_intent_failure)
  have no_match: "llm = Completion (Choice (Some response_text) tcs # cs)
        \<and> re_search_json response_text = None
      \<longrightarrow> classify_intent jl llm = Inr general_intent"
    by (auto simp: classify_intent_try_def intro!: classify_intent_success)
  have no_json: "llm = Completion (Choice (Some response_text) tcs # cs)
        \<and> re_search_json response_text = Some json_match \<and> jl json_match = None
      \<longrightarrow> classify_intent jl llm = Inr general_intent"
    by (auto simp: classify_intent_try_def intro: classify_intent_failure)
  have found: "llm = Completion (Choice (Some response_text) tcs # cs)
        \<and> re_search_json response_text = Some json_match
        \<and> jl json_match = Some (PDict kv) \<and> map_of kv ''intent'' = Some v
      \<longrightarrow> classify_intent jl llm = Inr [(''intent'', v)]"
    by (auto simp: classify_intent_try_def intro!: classify_intent_success)
  have missing: "llm = Completion (Choice (Some response_text) tcs # cs)
        \<and> re_search_json response_text = Some json_match
        \<and> jl json_match = Some (PDict kv) \<and> map_of kv ''intent'' = None
      \<longrightarrow> classify_intent jl llm = Inr [(''intent'', PNone)]"
    by (auto simp: classify_intent_try_def intro!: classify_intent_success)
  from classify_intent_returns [of jl llm] raised no_match no_json found missing
    dispatch_none_intent [of jl llm fsub printable repr hl env user_message s]
  show ?thesis by blast
qed

text \<open>
  A raising completion, a reply without a fence, a fence around a text that is not JSON,
  a fence around an object with the intent \<open>crypto\<close>, and a fence around \<open>{}\<close>.
\<close>

theorem classify_intent_defaults_witness:
  "classify_intent sample_json_loads (CompletionRaises ClientError) = Inr general_intent
   \<and> classify_intent sample_json_loads (Completion [Choice (Some ''crypto'') []])
     = Inr general_intent
   \<and> classify_intent sample_json_loads (Completion [Choice (Some (fenced ''{intent}'')) []])
     = Inr general_intent
   \<and> classify_intent sample_json_loads
       (Completion [Choice (Some (''Here it is: ''
          @ fenced (''{'' @ quoted ''intent'' @ '': '' @ quoted ''crypto'' @ ''}''))) []])
     = Inr [(''intent'', PStr ''crypto'')]
   \<and> classify_intent sample_json_loads (Completion [Choice (Some (fenced ''{}'')) []])
     = Inr [(''intent'', PNone)]"
proof -
  have s1: "re_search_json ''crypto'' = None"
    by (simp add: fence_open_def)
  have s2: "re_search_json (fenced ''{intent}'') = Some ''{intent}''"
    by (simp add: fenced_def fence_open_def fence_close_def)
  have j2: "sample_json_loads ''{intent}'' = None"
    by (simp add: sample_json_loads_def quoted_def)
  have s3: "re_search_json (''Here it is: ''
          @ fenced (''{'' @ quoted ''intent'' @ '': '' @ quoted ''crypto'' @ ''}''))
      = Some (''{'' @ quoted ''intent'' @ '': '' @ quoted ''crypto'' @ ''}'')"
    by (simp add: fenced_def fence_open_def fence_close_def quoted_def)
  have j3: "sample_json_loads (''{'' @ quoted ''intent'' @ '': '' @ quoted ''crypto'' @ ''}'')
      = Some (PDict [(''intent'', PStr ''crypto'')])"
    by (simp add: sample_json_loads_def quoted_def)
  have s4: "re_search_json (fenced ''{}'') = Some ''{}''"
    by (simp add: fenced_def fence_open_def fence_close_def)
  have j4: "sample_json_loads ''{}'' = Some (PDict [])"
    by (simp add: sample_json_loads_def)
  have a: "classify_intent sample_json_loads (CompletionRaises ClientError) = Inr general_intent"
    using classify_intent_defaults [of sample_json_loads "CompletionRaises ClientError"
        ClientError]
    by blast
  have b: "classify_intent sample_json_loads (Completion [Choice (Some ''crypto'') []])
     = Inr general_intent"
    using classify_intent_defaults [of sample_json_loads
        "Completion [Choice (Some ''crypto'') []]" ClientError "''crypto''" "[]" "[]"] s1
    by blast
  have c: "classify_intent sample_json_loads (Completion [Choice (Some (fenced ''{intent}'')) []])
     = Inr general_intent"
    using classify_intent_defaults [of sample_json_loads
        "Completion [Choice (Some (fenced ''{intent}'')) []]" ClientError
        "fenced ''{intent}''" "[]" "[]" "''{intent}''"] s2 j2
    by blast
  have d: "classify_intent sample_json_loads
       (Completion [Choice (Some (''Here it is: ''
          @ fenced (''{'' @ quoted ''intent'' @ '': '' @ quoted ''crypto'' @ ''}''))) []])
     = Inr [(''intent'', PStr ''crypto'')]"
    using classify_intent_defaults [of sample_json_loads
        "Completion [Choice (Some (''Here it is: ''
          @ fenced (''{'' @ quoted ''intent'' @ '': '' @ quoted ''crypto'' @ ''}''))) []]"
        ClientError
        "''Here it is: '' @ fenced (''{'' @ quoted ''intent'' @ '': '' @ quoted ''crypto'' @ ''}'')"
        "[]" "[]" "''{'' @ quoted ''intent'' @ '': '' @ quoted ''crypto'' @ ''}''"
        "[(''intent'', PStr ''crypto'')]" "PStr ''crypto''"] s3 j3
    by (simp del: re_search_json.simps)
  have e: "classify_intent sample_json_loads (Completion [Choice (Some (fenced ''{}'')) []])
     = Inr [(''intent'', PNone)]"
    using classify_intent_defaults [of sample_json_loads
        "Completion [Choice (Some (fenced ''{}'')) []]" ClientError
        "fenced ''{}''" "[]" "[]" "''{}''" "[]"] s4 j4
    by (simp del: re_search_json.simps)
  from a b c d e show ?thesis by blast
qed

end
